theory Spec2Isabelle
  imports Complex_Main "HOL-Library.Sublist"
begin

section \<open>Shared schema\<close>

text \<open>
  Modelled from the spec: the module \<^verbatim>\<open>@shared/schema\<close> that declares the types
  \<^verbatim>\<open>Employee\<close> and \<^verbatim>\<open>InsertEmployee\<close> is not among the sources. The fields are the
  ones of the sample rows in \<^verbatim>\<open>server/storage.ts\<close> (lines 28--89) and of section 3 of
  the specification. \<^verbatim>\<open>createEmployee\<close> adds \<^verbatim>\<open>id\<close> and \<^verbatim>\<open>createdAt\<close> to its input
  itself, so \<^verbatim>\<open>InsertEmployee\<close> is \<^verbatim>\<open>Employee\<close> without these two fields, and
  \<^verbatim>\<open>Employee\<close> is the extension of \<^verbatim>\<open>InsertEmployee\<close> by them.

  The salary is a whole number, a \<^verbatim>\<open>Date\<close> is its number of milliseconds since the epoch,
  and the avatar is a string or \<^verbatim>\<open>null\<close> (\<open>None\<close>). The field \<^verbatim>\<open>id\<close> is written
  \<open>id_field\<close>, since \<open>id\<close> is the identity function of HOL.

  A string of the program is a sequence of UTF-16 code units, each a number below 65536;
  \<open>utf16\<close> gives the code units of a literal of Basic Latin characters.
\<close>

type_synonym Date = int

type_synonym jsstring = "nat list"

definition utf16 :: "string \<Rightarrow> jsstring" where
  "utf16 s = map of_char s"

record InsertEmployee =
  name :: jsstring
  email :: jsstring
  department :: jsstring
  role :: jsstring
  salary :: int
  status :: jsstring
  avatar :: "jsstring option"
  employeeId :: jsstring

record Employee = InsertEmployee +
  id_field :: jsstring
  createdAt :: Date

text \<open>
  The object that \<^verbatim>\<open>updateEmployee\<close> receives as \<^verbatim>\<open>updateData\<close>: for every field of
  \<^verbatim>\<open>Employee\<close>, whether the object has a property of that name (\<open>Some v\<close>) or not
  (\<open>None\<close>). The declared type of the parameter is \<^verbatim>\<open>Partial<InsertEmployee>\<close>, whose
  values have no \<^verbatim>\<open>id\<close> and no \<^verbatim>\<open>createdAt\<close> (\<open>isPartialInsertEmployee\<close>); the type
  is erased when the program runs, and the method itself does not look at the properties
  it is given.
\<close>

record UpdateData =
  p_name :: "jsstring option"
  p_email :: "jsstring option"
  p_department :: "jsstring option"
  p_role :: "jsstring option"
  p_salary :: "int option"
  p_status :: "jsstring option"
  p_avatar :: "jsstring option option"
  p_employeeId :: "jsstring option"
  p_id :: "jsstring option"
  p_createdAt :: "Date option"


text \<open>The object \<^verbatim>\<open>{}\<close>.\<close>

definition emptyPartial :: UpdateData where
  "emptyPartial =
     \<lparr>p_name = None, p_email = None, p_department = None, p_role = None, p_salary = None,
      p_status = None, p_avatar = None, p_employeeId = None, p_id = None,
      p_createdAt = None\<rparr>"


section \<open>The record store (\<^verbatim>\<open>server/storage.ts\<close>)\<close>

text \<open>
  \<^verbatim>\<open>MemStorage\<close> keeps the employees in a \<^verbatim>\<open>Map<string, Employee>\<close>. Its methods are
  \<^verbatim>\<open>async\<close> functions without \<^verbatim>\<open>await\<close> and without \<^verbatim>\<open>throw\<close>: each is a function from
  the store to its result and the store afterwards. The map of users takes no part in the
  employee operations and is left out.
\<close>

record MemStorage =
  employees :: "jsstring \<rightharpoonup> Employee"

text \<open>\<^verbatim>\<open>return this.employees.get(id)\<close>\<close>

definition getEmployee :: "jsstring \<Rightarrow> MemStorage \<Rightarrow> Employee option" where
  "getEmployee i s = employees s i"

text \<open>
  \<^verbatim>\<open>{ ...insertEmployee, id, createdAt: new Date() }\<close>, stored under \<^verbatim>\<open>id\<close>. The results
  of \<^verbatim>\<open>randomUUID()\<close> and \<^verbatim>\<open>new Date()\<close> are the arguments \<open>uuid\<close> and \<open>now\<close>.
\<close>

definition createEmployee ::
  "InsertEmployee \<Rightarrow> jsstring \<Rightarrow> Date \<Rightarrow> MemStorage \<Rightarrow> Employee \<times> MemStorage" where
  "createEmployee insertEmployee uuid now s =
     (let employee = InsertEmployee.extend insertEmployee (Employee.fields uuid now)
      in (employee, s\<lparr>employees := (employees s)(uuid \<mapsto> employee)\<rparr>))"

text \<open>
  \<^verbatim>\<open>{ ...employee, ...updateData }\<close>: the fields of the stored record, each overwritten by
  the property of \<^verbatim>\<open>updateData\<close> of the same name when \<^verbatim>\<open>updateData\<close> has one, \<^verbatim>\<open>id\<close>
  and \<^verbatim>\<open>createdAt\<close> like the others. (A property that is no field of \<^verbatim>\<open>Employee\<close> would be
  copied as well; no operation reads it, and it is not modelled.)
\<close>

definition spread :: "Employee \<Rightarrow> UpdateData \<Rightarrow> Employee" where
  "spread employee updateData =
     employee
       \<lparr>name := (case p_name updateData of None \<Rightarrow> name employee | Some v \<Rightarrow> v),
        email := (case p_email updateData of None \<Rightarrow> email employee | Some v \<Rightarrow> v),
        department :=
          (case p_department updateData of None \<Rightarrow> department employee | Some v \<Rightarrow> v),
        role := (case p_role updateData of None \<Rightarrow> role employee | Some v \<Rightarrow> v),
        salary := (case p_salary updateData of None \<Rightarrow> salary employee | Some v \<Rightarrow> v),
        status := (case p_status updateData of None \<Rightarrow> status employee | Some v \<Rightarrow> v),
        avatar := (case p_avatar updateData of None \<Rightarrow> avatar employee | Some v \<Rightarrow> v),
        employeeId :=
          (case p_employeeId updateData of None \<Rightarrow> employeeId employee | Some v \<Rightarrow> v),
        id_field := (case p_id updateData of None \<Rightarrow> id_field employee | Some v \<Rightarrow> v),
        createdAt :=
          (case p_createdAt updateData of None \<Rightarrow> createdAt employee | Some v \<Rightarrow> v)\<rparr>"

text \<open>
  \<^verbatim>\<open>updateEmployee\<close> (lines 132--139): the updated record is stored under the key \<^verbatim>\<open>id\<close> it
  was looked up with.
\<close>

definition updateEmployee ::
  "jsstring \<Rightarrow> UpdateData \<Rightarrow> MemStorage \<Rightarrow> Employee option \<times> MemStorage" where
  "updateEmployee i updateData s =
     (case employees s i of
        None \<Rightarrow> (None, s)
      | Some employee \<Rightarrow>
          (let updatedEmployee = spread employee updateData
           in (Some updatedEmployee, s\<lparr>employees := (employees s)(i \<mapsto> updatedEmployee)\<rparr>)))"

text \<open>\<^verbatim>\<open>return this.employees.delete(id)\<close>: whether the key was there, and the map without it.\<close>

definition deleteEmployee :: "jsstring \<Rightarrow> MemStorage \<Rightarrow> bool \<times> MemStorage" where
  "deleteEmployee i s = (employees s i \<noteq> None, s\<lparr>employees := (employees s)(i := None)\<rparr>)"


section \<open>The table view engine (\<^verbatim>\<open>DataTable\<close>)\<close>

subsection \<open>State\<close>

text \<open>
  \<^verbatim>\<open>type SortDirection = 'asc' | 'desc' | null\<close>: the state holds a
  \<open>SortDirection option\<close>, with \<open>None\<close> for \<^verbatim>\<open>null\<close>.
  \<^verbatim>\<open>type SortColumn = keyof Employee\<close>: one constructor for each field.
\<close>

datatype SortDirection = Asc | Desc

datatype SortColumn =
  Id | Name | Email | Department | Role | Salary | Status | Avatar | EmployeeId | CreatedAt

datatype SelectionMode = Single | Multiple | NoneMode

text \<open>
  The seven \<^verbatim>\<open>useState\<close> cells of the component. The fetched rows (\<^verbatim>\<open>employees\<close>, the
  data of the query) are an argument \<open>rows\<close> of the functions below.
\<close>

record DataTable =
  searchTerm :: jsstring
  sortColumn :: SortColumn
  sortDirection :: "SortDirection option"
  selectedRows :: "jsstring set"
  selectionMode :: SelectionMode
  currentPage :: int
  pageSize :: int

definition initialState :: DataTable where
  "initialState =
     \<lparr>searchTerm = [], sortColumn = Salary, sortDirection = Some Desc, selectedRows = {},
      selectionMode = Multiple, currentPage = 1, pageSize = 10\<rparr>"

text \<open>\<^verbatim>\<open>onChange={(e) => setSearchTerm(e.target.value)}\<close>: the one cell is replaced.\<close>

definition setSearchTerm :: "jsstring \<Rightarrow> DataTable \<Rightarrow> DataTable" where
  "setSearchTerm t st = st\<lparr>searchTerm := t\<rparr>"

subsection \<open>Filter\<close>

text \<open>
  \<^verbatim>\<open>String.prototype.toLowerCase\<close> is a function of the language, not of this repository.
  Modelled from the language standard (ECMA-262, \<^verbatim>\<open>String.prototype.toLowerCase\<close>: the
  result of \<^verbatim>\<open>toLowercase\<close> of the Unicode Default Case Conversion algorithm, with the
  context-sensitive mappings of \<^verbatim>\<open>SpecialCasing.txt\<close> that depend on no language), for the
  characters of Basic Latin (U+0000 to U+007F) and the Greek letters U+0391 to U+03CE.
  Any other code unit is kept and counts as neither cased nor case-ignorable.

  \<^item> \<open>lowerUnit\<close>: the lowercase mapping of one character. A to Z (65 to 90) and the Greek
    capitals U+0391 to U+03AB (913 to 939; U+03A2, 930, is no character) lie 32 below
    their small letters.
  \<^item> \<open>cased\<close>: the letters A to Z, a to z and U+0391 to U+03CE.
  \<^item> \<open>caseIgnorable\<close>: in Basic Latin the apostrophe (39), the full stop (46), the colon
    (58), the circumflex (94) and the grave accent (96).
  \<^item> The one context-sensitive mapping is \<^verbatim>\<open>Final_Sigma\<close>: the capital sigma U+03A3 (931)
    becomes the final small sigma U+03C2 (962) when it is preceded by a cased letter and
    then any number of case-ignorable characters, and is not followed by any number of
    case-ignorable characters and then a cased letter; otherwise it becomes the small
    sigma U+03C3 (963), as \<open>lowerUnit\<close> has it.
\<close>

definition lowerUnit :: "nat \<Rightarrow> nat" where
  "lowerUnit c =
     (if (65 \<le> c \<and> c \<le> 90) \<or> (913 \<le> c \<and> c \<le> 939 \<and> c \<noteq> 930) then c + 32 else c)"

definition cased :: "nat \<Rightarrow> bool" where
  "cased c \<longleftrightarrow>
     (65 \<le> c \<and> c \<le> 90) \<or> (97 \<le> c \<and> c \<le> 122) \<or> (913 \<le> c \<and> c \<le> 974 \<and> c \<noteq> 930)"

definition caseIgnorable :: "nat \<Rightarrow> bool" where
  "caseIgnorable c \<longleftrightarrow> c = 39 \<or> c = 46 \<or> c = 58 \<or> c = 94 \<or> c = 96"

text \<open>Whether a text starts with case-ignorable characters and then a cased letter.\<close>

fun followedByCased :: "jsstring \<Rightarrow> bool" where
  "followedByCased [] = False"
| "followedByCased (d # ds) = (cased d \<or> (caseIgnorable d \<and> followedByCased ds))"

text \<open>
  The conversion from a position on; \<open>before\<close> says whether the text before the position
  ends with a cased letter and then case-ignorable characters.
\<close>

fun lowerFrom :: "bool \<Rightarrow> jsstring \<Rightarrow> jsstring" where
  "lowerFrom before [] = []"
| "lowerFrom before (c # cs) =
     (if c = 931 \<and> before \<and> \<not> followedByCased cs then 962 else lowerUnit c)
       # lowerFrom (cased c \<or> (caseIgnorable c \<and> before)) cs"

definition toLowerCase :: "jsstring \<Rightarrow> jsstring" where
  "toLowerCase s = lowerFrom False s"

text \<open>
  \<^verbatim>\<open>s.includes(t)\<close>: \<open>t\<close> is looked for at position 0 of \<open>s\<close>, then at position 1, and
  so on to the end of \<open>s\<close>.
\<close>

fun includes_str :: "jsstring \<Rightarrow> jsstring \<Rightarrow> bool" where
  "includes_str [] t = (t = [])"
| "includes_str (c # cs) t = (prefix t (c # cs) \<or> includes_str cs t)"

definition matchesSearch :: "jsstring \<Rightarrow> Employee \<Rightarrow> bool" where
  "matchesSearch term employee \<longleftrightarrow>
     includes_str (toLowerCase (name employee)) (toLowerCase term) \<or>
     includes_str (toLowerCase (email employee)) (toLowerCase term) \<or>
     includes_str (toLowerCase (department employee)) (toLowerCase term) \<or>
     includes_str (toLowerCase (role employee)) (toLowerCase term)"

subsection \<open>Sort\<close>

text \<open>
  \<^verbatim>\<open>a[sortColumn]\<close>: the value of a field, with the type that \<^verbatim>\<open>typeof\<close> tests. The types
  are the declared ones of \<^verbatim>\<open>Employee\<close>.
\<close>

datatype FieldValue = StringValue jsstring | NumberValue int | NullValue | DateValue Date

fun field :: "SortColumn \<Rightarrow> Employee \<Rightarrow> FieldValue" where
  "field Id e = StringValue (id_field e)"
| "field Name e = StringValue (name e)"
| "field Email e = StringValue (email e)"
| "field Department e = StringValue (department e)"
| "field Role e = StringValue (role e)"
| "field Salary e = NumberValue (salary e)"
| "field Status e = StringValue (status e)"
| "field Avatar e = (case avatar e of None \<Rightarrow> NullValue | Some a \<Rightarrow> StringValue a)"
| "field EmployeeId e = StringValue (employeeId e)"
| "field CreatedAt e = DateValue (createdAt e)"

text \<open>
  The comparator handed to \<^verbatim>\<open>filtered.sort\<close> (lines 73--88). \<^verbatim>\<open>localeCompare\<close> depends on
  the locale of the browser and is an argument.
\<close>

fun compareValues ::
  "(jsstring \<Rightarrow> jsstring \<Rightarrow> int) \<Rightarrow> SortDirection \<Rightarrow> FieldValue \<Rightarrow> FieldValue \<Rightarrow> int" where
  "compareValues localeCompare dir (StringValue aValue) (StringValue bValue) =
     (let comparison = localeCompare aValue bValue
      in if dir = Asc then comparison else - comparison)"
| "compareValues localeCompare dir (NumberValue aValue) (NumberValue bValue) =
     (let comparison = aValue - bValue
      in if dir = Asc then comparison else - comparison)"
| "compareValues localeCompare dir aValue bValue = 0"

definition compareEmployees ::
  "(jsstring \<Rightarrow> jsstring \<Rightarrow> int) \<Rightarrow> SortColumn \<Rightarrow> SortDirection \<Rightarrow> Employee \<Rightarrow> Employee \<Rightarrow> int"
  where
  "compareEmployees localeCompare column dir a b =
     compareValues localeCompare dir (field column a) (field column b)"

text \<open>
  \<^verbatim>\<open>Array.prototype.sort(comparefn)\<close>. The language standard requires a stable sort and,
  for a consistent comparator, the sorted order: the array is built by stable insertion,
  an element going before the first one that it does not compare greater than.
\<close>

fun insert_by :: "('a \<Rightarrow> 'a \<Rightarrow> int) \<Rightarrow> 'a \<Rightarrow> 'a list \<Rightarrow> 'a list" where
  "insert_by cmp x [] = [x]"
| "insert_by cmp x (y # ys) = (if cmp x y \<le> 0 then x # y # ys else y # insert_by cmp x ys)"

definition sort_js :: "('a \<Rightarrow> 'a \<Rightarrow> int) \<Rightarrow> 'a list \<Rightarrow> 'a list" where
  "sort_js cmp xs = foldr (insert_by cmp) xs []"

text \<open>
  \<^verbatim>\<open>filteredAndSortedEmployees\<close> (lines 64--92). \<^verbatim>\<open>sortColumn\<close> is a non-empty string, so
  \<^verbatim>\<open>sortColumn && sortDirection\<close> tests that the direction is not \<^verbatim>\<open>null\<close>.
\<close>

definition filteredAndSortedEmployees ::
  "(jsstring \<Rightarrow> jsstring \<Rightarrow> int) \<Rightarrow> Employee list \<Rightarrow> DataTable \<Rightarrow> Employee list" where
  "filteredAndSortedEmployees localeCompare rows st =
     (let filtered = filter (matchesSearch (searchTerm st)) rows
      in case sortDirection st of
           None \<Rightarrow> filtered
         | Some dir \<Rightarrow> sort_js (compareEmployees localeCompare (sortColumn st) dir) filtered)"

subsection \<open>Pagination\<close>

text \<open>
  \<^verbatim>\<open>Array.prototype.slice(start, end)\<close> on whole numbers: a negative index counts from the
  end, both indices are clamped to the array, and an empty range gives the empty array.
\<close>

definition slice :: "'a list \<Rightarrow> int \<Rightarrow> int \<Rightarrow> 'a list" where
  "slice xs start stop =
     (let len = int (length xs);
          k = (if start < 0 then max (len + start) 0 else min start len);
          final = (if stop < 0 then max (len + stop) 0 else min stop len)
      in take (nat (final - k)) (drop (nat k) xs))"

text \<open>
  A number that \<^verbatim>\<open>Math.ceil(length / pageSize)\<close> can be: a whole number, or, when the page
  size is 0, \<^verbatim>\<open>Infinity\<close> or (for 0 / 0) \<^verbatim>\<open>NaN\<close>.
\<close>

datatype jsnum = Num int | Infinity | NaN

definition totalPages ::
  "(jsstring \<Rightarrow> jsstring \<Rightarrow> int) \<Rightarrow> Employee list \<Rightarrow> DataTable \<Rightarrow> jsnum" where
  "totalPages localeCompare rows st =
     (let n = int (length (filteredAndSortedEmployees localeCompare rows st))
      in if pageSize st = 0 then (if n = 0 then NaN else Infinity)
         else Num (- ((- n) div pageSize st)))"

definition paginatedEmployees ::
  "(jsstring \<Rightarrow> jsstring \<Rightarrow> int) \<Rightarrow> Employee list \<Rightarrow> DataTable \<Rightarrow> Employee list" where
  "paginatedEmployees localeCompare rows st =
     slice (filteredAndSortedEmployees localeCompare rows st)
       ((currentPage st - 1) * pageSize st) (currentPage st * pageSize st)"

subsection \<open>Event handlers\<close>

text \<open>
  \<^verbatim>\<open>handleSort\<close> (lines 101--112). The handler reads \<^verbatim>\<open>sortColumn\<close> and \<^verbatim>\<open>sortDirection\<close>
  of the render it was created in (\<open>st\<close>); of two calls of one setter the later one stands.
\<close>

definition handleSort :: "SortColumn \<Rightarrow> DataTable \<Rightarrow> DataTable" where
  "handleSort column st =
     (if sortColumn st = column then
        (let st1 = st\<lparr>sortDirection :=
                (if sortDirection st = Some Asc then Some Desc
                 else if sortDirection st = Some Desc then None
                 else Some Asc)\<rparr>
         in if sortDirection st = Some Desc
            then st1\<lparr>sortColumn := column, sortDirection := None\<rparr>
            else st1)
      else st\<lparr>sortColumn := column, sortDirection := Some Asc\<rparr>)"

text \<open>\<^verbatim>\<open>handleRowSelection\<close> (lines 114--131), on a copy of the selected set.\<close>

definition handleRowSelection :: "jsstring \<Rightarrow> bool \<Rightarrow> DataTable \<Rightarrow> DataTable" where
  "handleRowSelection rowId checked st =
     (let newSelectedRows = selectedRows st;
          newSelectedRows =
            (if selectionMode st = Single then
               (let cleared = {} in if checked then insert rowId cleared else cleared)
             else if selectionMode st = Multiple then
               (if checked then insert rowId newSelectedRows else newSelectedRows - {rowId})
             else newSelectedRows)
      in st\<lparr>selectedRows := newSelectedRows\<rparr>)"

text \<open>\<^verbatim>\<open>handleSelectAll\<close> (lines 133--141), starting from \<^verbatim>\<open>new Set<string>()\<close>.\<close>

definition handleSelectAll ::
  "(jsstring \<Rightarrow> jsstring \<Rightarrow> int) \<Rightarrow> Employee list \<Rightarrow> bool \<Rightarrow> DataTable \<Rightarrow> DataTable" where
  "handleSelectAll localeCompare rows checked st =
     (if selectionMode st = Multiple then
        (let newSelectedRows = {};
             newSelectedRows =
               (if checked
                then foldl (\<lambda>acc employee. insert (id_field employee) acc) newSelectedRows
                       (paginatedEmployees localeCompare rows st)
                else newSelectedRows)
         in st\<lparr>selectedRows := newSelectedRows\<rparr>)
      else st)"


section \<open>Sample data\<close>

text \<open>
  The five rows of \<^verbatim>\<open>initializeSampleData\<close> (\<^verbatim>\<open>server/storage.ts\<close>, lines 28--89), with the
  time of start-up as 0, and the store that the constructor builds from them.
\<close>

definition sarah :: Employee where
  "sarah =
     \<lparr>name = utf16 ''Sarah Johnson'', email = utf16 ''sarah.johnson@company.com'',
      department = utf16 ''Engineering'', role = utf16 ''Senior Developer'', salary = 95000,
      status = utf16 ''active'',
      avatar = Some (utf16 ''https://images.unsplash.com/photo-1494790108755-2616b612b786''
        @ utf16 ''?ixlib=rb-4.0.3&ixid=MnwxMjA3fDB8MHxwaG90by1wYWdlfHx8fGVufDB8fHx8&auto=format&fit=crop&w=200&h=200''),
      employeeId = utf16 ''EMP001'', id_field = utf16 ''1'', createdAt = 0\<rparr>"

definition michael :: Employee where
  "michael =
     \<lparr>name = utf16 ''Michael Chen'', email = utf16 ''michael.chen@company.com'',
      department = utf16 ''Marketing'', role = utf16 ''Marketing Manager'', salary = 85000,
      status = utf16 ''active'',
      avatar = Some (utf16 ''https://images.unsplash.com/photo-1472099645785-5658abf4ff4e''
        @ utf16 ''?ixlib=rb-4.0.3&ixid=MnwxMjA3fDB8MHxwaG90by1wYWdlfHx8fGVufDB8fHx8&auto=format&fit=crop&w=200&h=200''),
      employeeId = utf16 ''EMP002'', id_field = utf16 ''2'', createdAt = 0\<rparr>"

definition emma :: Employee where
  "emma =
     \<lparr>name = utf16 ''Emma Davis'', email = utf16 ''emma.davis@company.com'',
      department = utf16 ''Design'', role = utf16 ''UX Designer'', salary = 78000,
      status = utf16 ''on-leave'',
      avatar = Some (utf16 ''https://images.unsplash.com/photo-1438761681033-6461ffad8d80''
        @ utf16 ''?ixlib=rb-4.0.3&ixid=MnwxMjA3fDB8MHxwaG90by1wYWdlfHx8fGVufDB8fHx8&auto=format&fit=crop&w=200&h=200''),
      employeeId = utf16 ''EMP003'', id_field = utf16 ''3'', createdAt = 0\<rparr>"

definition david :: Employee where
  "david =
     \<lparr>name = utf16 ''David Rodriguez'', email = utf16 ''david.rodriguez@company.com'',
      department = utf16 ''Sales'', role = utf16 ''Sales Representative'', salary = 65000,
      status = utf16 ''active'',
      avatar = Some (utf16 ''https://images.unsplash.com/photo-1507003211169-0a1dd7228f2d''
        @ utf16 ''?ixlib=rb-4.0.3&ixid=MnwxMjA3fDB8MHxwaG90by1wYWdlfHx8fGVufDB8fHx8&auto=format&fit=crop&w=200&h=200''),
      employeeId = utf16 ''EMP004'', id_field = utf16 ''4'', createdAt = 0\<rparr>"

definition lisa :: Employee where
  "lisa =
     \<lparr>name = utf16 ''Lisa Thompson'', email = utf16 ''lisa.thompson@company.com'',
      department = utf16 ''HR'', role = utf16 ''HR Manager'', salary = 72000,
      status = utf16 ''inactive'',
      avatar = Some (utf16 ''https://images.unsplash.com/photo-1487412720507-e7ab37603c6f''
        @ utf16 ''?ixlib=rb-4.0.3&ixid=MnwxMjA3fDB8MHxwaG90by1wYWdlfHx8fGVufDB8fHx8&auto=format&fit=crop&w=200&h=200''),
      employeeId = utf16 ''EMP005'', id_field = utf16 ''5'', createdAt = 0\<rparr>"

definition sampleEmployees :: "Employee list" where
  "sampleEmployees = [sarah, michael, emma, david, lisa]"

definition sampleStore :: MemStorage where
  "sampleStore =
     \<lparr>employees =
        [utf16 ''1'' \<mapsto> sarah, utf16 ''2'' \<mapsto> michael, utf16 ''3'' \<mapsto> emma,
         utf16 ''4'' \<mapsto> david, utf16 ''5'' \<mapsto> lisa]\<rparr>"

text \<open>
  A row whose name is the Greek name Nikos, written with the code units U+039D (capital
  nu, 925), U+03AF (small iota with tonos, 943), U+03BA (small kappa, 954), U+03BF (small
  omicron, 959) and U+03C2 (final small sigma, 962).
\<close>

definition nikos :: Employee where
  "nikos =
     \<lparr>name = [925, 943, 954, 959, 962], email = utf16 ''nikos@company.com'',
      department = utf16 ''Sales'', role = utf16 ''Sales Representative'', salary = 65000,
      status = utf16 ''active'', avatar = None, employeeId = utf16 ''EMP006'',
      id_field = utf16 ''6'', createdAt = 0\<rparr>"

text \<open>
  A table of eleven rows, one more than the first page holds at the initial page size, and
  the state of the table after the salary header was activated once (no sorting) and the
  last row, of id 111, was selected on the second page, shown on the first page again.
\<close>

definition tableRow :: "jsstring \<Rightarrow> Employee" where
  "tableRow i =
     \<lparr>name = utf16 ''Employee '' @ i, email = utf16 ''employee'' @ i @ utf16 ''@company.com'',
      department = utf16 ''Sales'', role = utf16 ''Sales Representative'', salary = 65000,
      status = utf16 ''active'', avatar = None, employeeId = utf16 ''EMP'' @ i, id_field = i,
      createdAt = 0\<rparr>"

definition elevenRows :: "Employee list" where
  "elevenRows =
     map (\<lambda>i. tableRow (utf16 i))
       [''101'', ''102'', ''103'', ''104'', ''105'', ''106'', ''107'', ''108'', ''109'', ''110'',
        ''111'']"

definition pageOneLastRowSelected :: DataTable where
  "pageOneLastRowSelected =
     initialState\<lparr>sortDirection := None, selectedRows := {utf16 ''111''}\<rparr>"


section \<open>Properties of the record store\<close>

lemma utf16_eq_iff: "utf16 a = utf16 b \<longleftrightarrow> a = b"
  by (simp add: utf16_def inj_on_def)





text \<open>
  C4. For every creation input, \<^verbatim>\<open>createEmployee\<close> followed by \<^verbatim>\<open>getEmployee\<close> on the id
  of the returned record yields the returned record. That record is the creation input
  extended by two fields (without them, \<open>InsertEmployee.truncate\<close>, it is the input): the
  id that \<^verbatim>\<open>randomUUID()\<close> generated and the timestamp that \<^verbatim>\<open>new Date()\<close> gave at creation.
\<close>

theorem create_then_get:
  "getEmployee (id_field (fst (createEmployee ins uuid now s)))
       (snd (createEmployee ins uuid now s))
     = Some (fst (createEmployee ins uuid now s))
   \<and> InsertEmployee.truncate (fst (createEmployee ins uuid now s)) = ins
   \<and> id_field (fst (createEmployee ins uuid now s)) = uuid
   \<and> createdAt (fst (createEmployee ins uuid now s)) = now"
  by (simp add: createEmployee_def getEmployee_def Let_def InsertEmployee.defs Employee.defs)

text \<open>
  C5. For every id that is not a key of the store, \<^verbatim>\<open>getEmployee\<close> returns absent,
  \<^verbatim>\<open>updateEmployee\<close> returns absent and \<^verbatim>\<open>deleteEmployee\<close> returns false, each as an
  ordinary result (the three operations have no failing branch), and the store is as before.
\<close>

theorem unknown_id_is_absent:
  assumes "i \<notin> dom (employees s)"
  shows "getEmployee i s = None
     \<and> updateEmployee i u s = (None, s)
     \<and> deleteEmployee i s = (False, s)"
  using assms
  by (simp add: getEmployee_def updateEmployee_def deleteEmployee_def domIff)

theorem unknown_id_is_absent_witness:
  "utf16 ''7'' \<notin> dom (employees sampleStore)
   \<and> getEmployee (utf16 ''7'') sampleStore = None
   \<and> updateEmployee (utf16 ''7'') (emptyPartial\<lparr>p_salary := Some 1\<rparr>) sampleStore = (None, sampleStore)
   \<and> deleteEmployee (utf16 ''7'') sampleStore = (False, sampleStore)"
proof -
  have absent: "utf16 ''7'' \<notin> dom (employees sampleStore)"
    by (simp add: sampleStore_def utf16_eq_iff)
  from unknown_id_is_absent [OF absent] absent show ?thesis by simp
qed


section \<open>Filtering\<close>

text \<open>\<^verbatim>\<open>includes\<close> is the contiguous-sublist relation of the list library.\<close>

lemma includes_str_sublist: "includes_str s t \<longleftrightarrow> sublist t s"
  by (induction s) (auto simp: sublist_Cons_right)

lemma includes_str_empty: "includes_str s []"
  by (simp add: includes_str_sublist)

lemma matchesSearch_empty: "matchesSearch [] e"
  by (simp add: matchesSearch_def toLowerCase_def includes_str_empty)

lemma filter_matchesSearch_empty: "filter (matchesSearch []) rows = rows"
  by (simp add: matchesSearch_empty)

lemma includes_str_mono:
  assumes "sublist (toLowerCase s1) (toLowerCase s2)" and "includes_str x (toLowerCase s2)"
  shows "includes_str x (toLowerCase s1)"
proof -
  from assms(2) have "sublist (toLowerCase s2) x"
    by (simp add: includes_str_sublist)
  with assms(1) have "sublist (toLowerCase s1) x"
    by (rule sublist_order.order_trans)
  then show ?thesis by (simp add: includes_str_sublist)
qed

lemma matchesSearch_mono:
  "sublist (toLowerCase s1) (toLowerCase s2) \<Longrightarrow> matchesSearch s2 e \<Longrightarrow> matchesSearch s1 e"
  unfolding matchesSearch_def using includes_str_mono by blast

text \<open>
  On Basic Latin text no character is a capital sigma, the conversion is the mapping of
  the single characters, and it keeps the substring relation.
\<close>

lemma lowerFrom_basic_latin:
  "list_all (\<lambda>c. c < 128) s \<Longrightarrow> lowerFrom before s = map lowerUnit s"
  by (induction s arbitrary: before) auto

lemma toLowerCase_basic_latin_sublist:
  assumes "sublist s1 s2" and "list_all (\<lambda>c. c < 128) s2"
  shows "sublist (toLowerCase s1) (toLowerCase s2)"
proof -
  from assms(1) have "set s1 \<subseteq> set s2" by (rule set_mono_sublist)
  with assms(2) have "list_all (\<lambda>c. c < 128) s1" by (auto simp: list_all_iff)
  with assms(2) have "toLowerCase s1 = map lowerUnit s1" and "toLowerCase s2 = map lowerUnit s2"
    by (simp_all add: toLowerCase_def lowerFrom_basic_latin)
  with assms(1) show ?thesis by (simp add: map_mono_sublist)
qed

text \<open>
  The scenario of the specification: of the five sample rows, the search term
  \<^verbatim>\<open>ENGINEERING\<close> keeps exactly the row whose department is Engineering.
\<close>

lemma lower_engineering: "toLowerCase (utf16 ''ENGINEERING'') = utf16 ''engineering''"
  by (simp add: toLowerCase_def lowerUnit_def cased_def caseIgnorable_def utf16_def)

lemma engineering_rows:
  "matchesSearch (utf16 ''ENGINEERING'') sarah"
  "\<not> matchesSearch (utf16 ''ENGINEERING'') michael"
  "\<not> matchesSearch (utf16 ''ENGINEERING'') emma"
  "\<not> matchesSearch (utf16 ''ENGINEERING'') david"
  "\<not> matchesSearch (utf16 ''ENGINEERING'') lisa"
  by (simp_all add: matchesSearch_def lower_engineering sarah_def michael_def emma_def
      david_def lisa_def toLowerCase_def lowerUnit_def cased_def caseIgnorable_def utf16_def)

lemma search_engineering:
  "filter (matchesSearch (utf16 ''ENGINEERING'')) sampleEmployees = [sarah]"
  by (simp add: sampleEmployees_def engineering_rows)

text \<open>
  The capital sigma: at the end of a word it becomes the final small sigma, alone it
  becomes the small sigma.
\<close>

lemma lower_kos: "toLowerCase [922, 927, 931] = [954, 959, 962]"
  by (simp add: toLowerCase_def lowerUnit_def cased_def caseIgnorable_def)

lemma lower_sigma: "toLowerCase [931] = [963]"
  by (simp add: toLowerCase_def lowerUnit_def cased_def caseIgnorable_def)

lemma lower_nikos: "toLowerCase (name nikos) = [957, 943, 954, 959, 962]"
  by (simp add: nikos_def toLowerCase_def lowerUnit_def cased_def caseIgnorable_def)

lemma nikos_kept_by_kos: "matchesSearch [922, 927, 931] nikos"
  by (simp add: matchesSearch_def lower_kos lower_nikos)

lemma nikos_dropped_by_sigma: "\<not> matchesSearch [931] nikos"
  by (simp add: matchesSearch_def lower_sigma lower_nikos)
     (simp add: nikos_def toLowerCase_def lowerUnit_def cased_def caseIgnorable_def utf16_def)


section \<open>Sorting\<close>

lemma set_insert_by: "set (insert_by cmp x ys) = insert x (set ys)"
  by (induction ys) auto

lemma set_sort_js: "set (sort_js cmp xs) = set xs"
  unfolding sort_js_def by (induction xs) (simp_all add: set_insert_by)

lemma length_insert_by: "length (insert_by cmp x ys) = Suc (length ys)"
  by (induction ys) auto

lemma length_sort_js: "length (sort_js cmp xs) = length xs"
  unfolding sort_js_def by (induction xs) (simp_all add: length_insert_by)

lemma set_filteredAndSortedEmployees:
  "set (filteredAndSortedEmployees lc rows st)
     = {e \<in> set rows. matchesSearch (searchTerm st) e}"
  by (auto simp: filteredAndSortedEmployees_def Let_def set_sort_js split: option.splits)

lemma unfiltered_unsorted:
  assumes "searchTerm st = []" and "sortDirection st = None"
  shows "filteredAndSortedEmployees lc rows st = rows"
  using assms by (simp add: filteredAndSortedEmployees_def filter_matchesSearch_empty)

lemma unfiltered_length:
  assumes "searchTerm st = []"
  shows "length (filteredAndSortedEmployees lc rows st) = length rows"
  using assms
  by (simp add: filteredAndSortedEmployees_def filter_matchesSearch_empty length_sort_js
      split: option.splits)

text \<open>
  On the salary column the comparator is the difference of the salaries, so the sort is
  the stable sort of the list library by salary, ascending, or by negated salary,
  descending.
\<close>

lemma insert_by_salary_asc:
  "insert_by (compareEmployees lc Salary Asc) x ys = insort_key salary x ys"
  by (induction ys) (simp_all add: compareEmployees_def)

lemma insert_by_salary_desc:
  "insert_by (compareEmployees lc Salary Desc) x ys = insort_key (\<lambda>e. - salary e) x ys"
  by (induction ys) (simp_all add: compareEmployees_def)

lemma sort_js_salary_asc: "sort_js (compareEmployees lc Salary Asc) xs = sort_key salary xs"
  unfolding sort_js_def sort_key_def by (induction xs) (simp_all add: insert_by_salary_asc)

lemma sort_js_salary_desc:
  "sort_js (compareEmployees lc Salary Desc) xs = sort_key (\<lambda>e. - salary e) xs"
  unfolding sort_js_def sort_key_def by (induction xs) (simp_all add: insert_by_salary_desc)

lemma sorted_rev_neg: "sorted (map (\<lambda>e. - (f e :: int)) xs) \<Longrightarrow> sorted (rev (map f xs))"
  by (induction xs) (auto simp: sorted_append)

subsection \<open>Monotonic filtering\<close>

text \<open>
  C8 (as amended). Filtering is monotonic in the case-folded search term: when the
  lower-cased \<open>s1\<close> is a substring of the lower-cased \<open>s2\<close>, which is so whenever \<open>s1\<close> is a
  substring of \<open>s2\<close> and \<open>s2\<close> is Basic Latin text, every row kept with \<open>s2\<close> is kept
  with \<open>s1\<close>, for the filter alone and for the filtered and sorted rows of the table in
  every sort state; and the empty search term keeps every row.
\<close>

theorem filter_monotonic:
  assumes "sublist (toLowerCase s1) (toLowerCase s2)
     \<or> (sublist s1 s2 \<and> list_all (\<lambda>c. c < 128) s2)"
  shows "set (filter (matchesSearch s2) rows) \<subseteq> set (filter (matchesSearch s1) rows)
     \<and> set (filteredAndSortedEmployees lc rows (setSearchTerm s2 st))
         \<subseteq> set (filteredAndSortedEmployees lc rows (setSearchTerm s1 st))
     \<and> filter (matchesSearch []) rows = rows
     \<and> set (filteredAndSortedEmployees lc rows (setSearchTerm [] st)) = set rows"
proof -
  from assms have "sublist (toLowerCase s1) (toLowerCase s2)"
    using toLowerCase_basic_latin_sublist by blast
  then have "matchesSearch s1 e" if "matchesSearch s2 e" for e
    using that by (rule matchesSearch_mono)
  then show ?thesis
    by (auto simp: set_filteredAndSortedEmployees setSearchTerm_def matchesSearch_empty)
qed

theorem filter_monotonic_witness:
  "sublist (utf16 ''ENG'') (utf16 ''ENGINEERING'')
   \<and> list_all (\<lambda>c. c < 128) (utf16 ''ENGINEERING'')
   \<and> filter (matchesSearch (utf16 ''ENGINEERING'')) sampleEmployees = [sarah]
   \<and> set (filter (matchesSearch (utf16 ''ENGINEERING'')) sampleEmployees)
       \<subseteq> set (filter (matchesSearch (utf16 ''ENG'')) sampleEmployees)
   \<and> sublist (toLowerCase (utf16 ''eng'')) (toLowerCase (utf16 ''ENGINEERING''))
   \<and> set (filter (matchesSearch (utf16 ''ENGINEERING'')) sampleEmployees)
       \<subseteq> set (filter (matchesSearch (utf16 ''eng'')) sampleEmployees)"
proof -
  have sub: "sublist (utf16 ''ENG'') (utf16 ''ENGINEERING'')"
    by (simp add: utf16_def sublist_code)
  have latin: "list_all (\<lambda>c. c < 128) (utf16 ''ENGINEERING'')"
    by (simp add: utf16_def)
  have folded: "sublist (toLowerCase (utf16 ''eng'')) (toLowerCase (utf16 ''ENGINEERING''))"
    by (simp add: toLowerCase_def lowerUnit_def cased_def caseIgnorable_def utf16_def
        sublist_code)
  from sub latin
  have raw: "sublist (toLowerCase (utf16 ''ENG'')) (toLowerCase (utf16 ''ENGINEERING''))
      \<or> (sublist (utf16 ''ENG'') (utf16 ''ENGINEERING'')
          \<and> list_all (\<lambda>c. c < 128) (utf16 ''ENGINEERING''))"
    by blast
  from folded
  have low: "sublist (toLowerCase (utf16 ''eng'')) (toLowerCase (utf16 ''ENGINEERING''))
      \<or> (sublist (utf16 ''eng'') (utf16 ''ENGINEERING'')
          \<and> list_all (\<lambda>c. c < 128) (utf16 ''ENGINEERING''))"
    by blast
  from filter_monotonic [OF raw, of sampleEmployees] filter_monotonic [OF low, of sampleEmployees]
    sub latin folded search_engineering
  show ?thesis by blast
qed

text \<open>
  The claim as stated fails: the search term of the one character capital sigma (931) is
  a substring of the search term of capital kappa, omicron, sigma (922, 927, 931). The
  longer term is lower-cased with a final small sigma and keeps the row Nikos; the
  shorter term is lower-cased to the small sigma, which the lower-cased name does not
  have, and drops the row.
\<close>

theorem filter_sigma_counterexample:
  "sublist [931::nat] [922, 927, 931]
   \<and> toLowerCase [922, 927, 931] = [954, 959, 962]
   \<and> toLowerCase [931] = [963]
   \<and> filter (matchesSearch [922, 927, 931]) [nikos] = [nikos]
   \<and> filter (matchesSearch [931]) [nikos] = []
   \<and> \<not> set (filter (matchesSearch [922, 927, 931]) [nikos])
         \<subseteq> set (filter (matchesSearch [931]) [nikos])"
proof -
  have "sublist [931] [922, 927, 931::nat]"
    by (simp add: sublist_code)
  with lower_kos lower_sigma nikos_kept_by_kos nikos_dropped_by_sigma show ?thesis
    by simp
qed

subsection \<open>The sort header\<close>

text \<open>
  C2 (as amended). The initial state sorts by salary, descending. From it, for every row
  set and search term, activating the salary header once yields the unsorted state, in
  which the rows are the filtered rows in their original order; a second activation yields
  the filtered rows in ascending order of salary (the stable sort by salary); a third
  yields them in descending order of salary (the stable sort by negated salary); and a
  fourth yields the unsorted state again. So the cycle unsorted, ascending, descending,
  unsorted is the one that starts after the first activation.
\<close>

theorem salary_header_cycle:
  "let st0 = setSearchTerm t initialState;
       st1 = handleSort Salary st0;
       st2 = handleSort Salary st1;
       st3 = handleSort Salary st2;
       filtered = filter (matchesSearch t) rows
   in sortDirection st0 = Some Desc
    \<and> sortDirection st1 = None
    \<and> filteredAndSortedEmployees lc rows st1 = filtered
    \<and> sortDirection st2 = Some Asc
    \<and> filteredAndSortedEmployees lc rows st2 = sort_key salary filtered
    \<and> sorted (map salary (filteredAndSortedEmployees lc rows st2))
    \<and> sortDirection st3 = Some Desc
    \<and> filteredAndSortedEmployees lc rows st3 = sort_key (\<lambda>e. - salary e) filtered
    \<and> sorted (rev (map salary (filteredAndSortedEmployees lc rows st3)))
    \<and> handleSort Salary st3 = st1"
  by (simp add: Let_def handleSort_def initialState_def setSearchTerm_def
      filteredAndSortedEmployees_def sort_js_salary_asc sort_js_salary_desc sorted_rev_neg)

text \<open>
  The claim as stated fails: after one activation of the salary header in the initial
  state the direction is not ascending, and the rows Sarah (95000), Michael (85000) are
  shown in this order, which is not ascending by salary.
\<close>

theorem salary_first_click_counterexample:
  "sortDirection (handleSort Salary initialState) \<noteq> Some Asc
   \<and> filteredAndSortedEmployees (\<lambda>a b. 0) [sarah, michael] (handleSort Salary initialState)
       = [sarah, michael]
   \<and> \<not> sorted (map salary
         (filteredAndSortedEmployees (\<lambda>a b. 0) [sarah, michael]
            (handleSort Salary initialState)))"
proof -
  have st: "handleSort Salary initialState = initialState\<lparr>sortDirection := None\<rparr>"
    by (simp add: handleSort_def initialState_def Let_def)
  have shown: "filteredAndSortedEmployees (\<lambda>a b. 0) [sarah, michael]
      (initialState\<lparr>sortDirection := None\<rparr>) = [sarah, michael]"
    by (rule unfiltered_unsorted) (simp_all add: initialState_def)
  have "\<not> sorted (map salary [sarah, michael])"
    by (simp add: sarah_def michael_def)
  with st shown show ?thesis by simp
qed


section \<open>Pagination\<close>

lemma slice_nonneg:
  assumes "0 \<le> a" and "a \<le> b"
  shows "slice xs a b = take (nat (b - a)) (drop (nat a) xs)"
proof (cases "a \<le> int (length xs)")
  case inside: True
  show ?thesis
  proof (cases "b \<le> int (length xs)")
    case True
    with inside assms show ?thesis by (simp add: slice_def Let_def)
  next
    case False
    with inside assms have "length (drop (nat a) xs) \<le> nat (b - a)"
      and "length (drop (nat a) xs) \<le> nat (int (length xs) - a)" by simp_all
    with inside False assms show ?thesis by (simp add: slice_def Let_def)
  qed
next
  case False
  with assms show ?thesis
    by (simp add: slice_def Let_def)
qed

lemma concat_pages:
  "concat (map (\<lambda>k. take m (drop (k * m) xs)) [0..<n]) = take (n * m) xs"
proof (induction n)
  case 0
  show ?case by simp
next
  case (Suc n)
  have "take (n * m) xs @ take m (drop (n * m) xs) = take (n * m + m) xs"
    by (simp add: take_add)
  with Suc show ?case by (simp add: add.commute)
qed

lemma upto_from_one: "[1..int n] = map (\<lambda>k. int k + 1) [0..<n]"
proof (induction n)
  case 0
  show ?case by simp
next
  case (Suc n)
  have "[1..int (Suc n)] = [1..int n] @ [int n + 1]"
    by (simp add: upto_rec2 add.commute)
  with Suc show ?case by simp
qed

lemma page_as_take_drop:
  assumes "0 < ps"
  shows "slice xs ((int k + 1 - 1) * ps) ((int k + 1) * ps)
           = take (nat ps) (drop (k * nat ps) xs)"
proof -
  from assms have "0 \<le> int k * ps" by simp
  moreover from assms have "int k * ps \<le> (int k + 1) * ps" by (simp add: distrib_right)
  ultimately have "slice xs (int k * ps) ((int k + 1) * ps)
      = take (nat ((int k + 1) * ps - int k * ps)) (drop (nat (int k * ps)) xs)"
    by (rule slice_nonneg)
  moreover have "(int k + 1) * ps - int k * ps = ps" by (simp add: distrib_right)
  moreover from assms have "nat (int k * ps) = k * nat ps" by (simp add: nat_mult_distrib)
  ultimately show ?thesis by simp
qed

lemma ceil_div_nonneg:
  assumes "0 < (ps::int)" and "0 \<le> n"
  shows "0 \<le> - ((- n) div ps)"
proof -
  from assms have "(- n) div ps \<le> 0" by (simp add: div_nonpos_pos_le0)
  then show ?thesis by simp
qed

lemma ceil_div_covers:
  assumes "0 < (ps::int)"
  shows "n \<le> (- ((- n) div ps)) * ps"
proof -
  have "(- n) div ps * ps + (- n) mod ps = - n" by simp
  moreover from assms have "0 \<le> (- n) mod ps" by simp
  ultimately have "(- n) div ps * ps \<le> - n" by linarith
  then show ?thesis by simp
qed

lemma concat_slices:
  assumes "0 < ps" and "int (length xs) \<le> int n * ps"
  shows "concat (map (\<lambda>p. slice xs ((p - 1) * ps) (p * ps)) [1..int n]) = xs"
proof -
  have "concat (map (\<lambda>p. slice xs ((p - 1) * ps) (p * ps)) [1..int n])
      = concat (map (\<lambda>k. slice xs ((int k + 1 - 1) * ps) ((int k + 1) * ps)) [0..<n])"
    by (simp add: upto_from_one comp_def)
  also have "\<dots> = concat (map (\<lambda>k. take (nat ps) (drop (k * nat ps) xs)) [0..<n])"
    using assms(1) by (simp only: page_as_take_drop)
  also have "\<dots> = take (n * nat ps) xs"
    by (rule concat_pages)
  also have "\<dots> = xs"
  proof -
    from assms have "length xs \<le> n * nat ps"
      by (metis nat_int nat_mono nat_mult_distrib of_nat_0_le_iff)
    then show ?thesis by simp
  qed
  finally show ?thesis .
qed

lemma length_elevenRows: "length elevenRows = 11"
  by (simp add: elevenRows_def)

lemma elevenRows_all:
  "filteredAndSortedEmployees lc elevenRows pageOneLastRowSelected = elevenRows"
  by (rule unfiltered_unsorted) (simp_all add: pageOneLastRowSelected_def initialState_def)

lemma elevenRows_page_one:
  "paginatedEmployees lc elevenRows pageOneLastRowSelected = take 10 elevenRows"
  by (simp add: paginatedEmployees_def elevenRows_all slice_def length_elevenRows)
     (simp add: pageOneLastRowSelected_def initialState_def)

lemma elevenRows_page_one_ids:
  "id_field ` set (paginatedEmployees lc elevenRows pageOneLastRowSelected)
     = utf16 ` {''101'', ''102'', ''103'', ''104'', ''105'', ''106'', ''107'', ''108'', ''109'', ''110''}"
  by (simp add: elevenRows_page_one) (simp add: elevenRows_def tableRow_def)

text \<open>
  C6. For every row set, search term, sort state and positive page size, the number of
  pages is the ceiling of the number of filtered and sorted rows over the page size, and
  the page slices of the pages 1 to that number, one after the other, are the filtered and
  sorted sequence itself: as lists, so every row stands once, at its place.
\<close>

theorem pages_reconstruct_sequence:
  assumes "0 < pageSize st"
  shows "\<exists>n. totalPages lc rows st = Num n
     \<and> n = \<lceil>real (length (filteredAndSortedEmployees lc rows st)) / real_of_int (pageSize st)\<rceil>
     \<and> concat (map (\<lambda>p. paginatedEmployees lc rows (st\<lparr>currentPage := p\<rparr>)) [1..n])
         = filteredAndSortedEmployees lc rows st"
proof -
  let ?xs = "filteredAndSortedEmployees lc rows st"
  let ?n = "- ((- int (length ?xs)) div pageSize st)"
  have same: "filteredAndSortedEmployees lc rows (st\<lparr>currentPage := p\<rparr>) = ?xs" for p
    by (simp add: filteredAndSortedEmployees_def Let_def split: option.splits)
  from assms have total: "totalPages lc rows st = Num ?n"
    by (simp add: totalPages_def Let_def)
  have "\<lceil>real_of_int (int (length ?xs)) / real_of_int (pageSize st)\<rceil> = ?n"
    by (rule ceiling_divide_eq_div)
  then have ceil: "?n = \<lceil>real (length ?xs) / real_of_int (pageSize st)\<rceil>"
    by simp
  from assms have "0 \<le> ?n" by (intro ceil_div_nonneg) simp_all
  then obtain m where m: "?n = int m" using nonneg_int_cases by blast
  from assms have "int (length ?xs) \<le> ?n * pageSize st" by (rule ceil_div_covers)
  with m have "int (length ?xs) \<le> int m * pageSize st" by simp
  with assms
  have "concat (map (\<lambda>p. slice ?xs ((p - 1) * pageSize st) (p * pageSize st)) [1..int m]) = ?xs"
    by (rule concat_slices)
  with m
  have "concat (map (\<lambda>p. paginatedEmployees lc rows (st\<lparr>currentPage := p\<rparr>)) [1..?n]) = ?xs"
    by (simp add: paginatedEmployees_def same)
  with total ceil show ?thesis by blast
qed

theorem pages_reconstruct_sequence_witness:
  "0 < pageSize initialState
   \<and> totalPages (\<lambda>a b. 0) elevenRows initialState = Num 2
   \<and> paginatedEmployees (\<lambda>a b. 0) elevenRows (initialState\<lparr>currentPage := 1\<rparr>)
       @ paginatedEmployees (\<lambda>a b. 0) elevenRows (initialState\<lparr>currentPage := 2\<rparr>)
       = filteredAndSortedEmployees (\<lambda>a b. 0) elevenRows initialState"
proof -
  have ps: "0 < pageSize initialState" by (simp add: initialState_def)
  have len: "length (filteredAndSortedEmployees (\<lambda>a b. 0) elevenRows initialState) = 11"
    by (simp add: unfiltered_length initialState_def length_elevenRows)
  have total: "totalPages (\<lambda>a b. 0) elevenRows initialState = Num 2"
    by (simp add: totalPages_def len Let_def) (simp add: initialState_def)
  have upto: "[1..2::int] = [1, 2]" by (simp add: upto_rec1)
  from pages_reconstruct_sequence [OF ps, of "\<lambda>a b. 0" elevenRows] total
  have "concat (map (\<lambda>p. paginatedEmployees (\<lambda>a b. 0) elevenRows (initialState\<lparr>currentPage := p\<rparr>))
          [1..2]) = filteredAndSortedEmployees (\<lambda>a b. 0) elevenRows initialState"
    by auto
  with ps total upto show ?thesis by simp
qed

text \<open>
  C7. For every row set and positive page size, a page whose offset
  \<^verbatim>\<open>(currentPage - 1) * pageSize\<close> is at or beyond the end of the filtered and sorted
  sequence has the empty slice (\<^verbatim>\<open>slice\<close> has no failing case), and typing a search term
  leaves the current page as it is. The witness is the scenario of the specification: page
  size 10, the five sample rows, page 2.
\<close>

theorem page_beyond_end_is_empty:
  assumes "0 < pageSize st"
    and "int (length (filteredAndSortedEmployees lc rows st))
           \<le> (currentPage st - 1) * pageSize st"
  shows "paginatedEmployees lc rows st = []
     \<and> currentPage (setSearchTerm t st) = currentPage st"
proof -
  let ?xs = "filteredAndSortedEmployees lc rows st"
  let ?a = "(currentPage st - 1) * pageSize st"
  from assms(2) have a: "0 \<le> ?a" by linarith
  from assms(1) have ab: "?a \<le> currentPage st * pageSize st" by (simp add: left_diff_distrib)
  from assms(2) have "length ?xs \<le> nat ?a" by linarith
  then have "drop (nat ?a) ?xs = []" by simp
  with slice_nonneg [OF a ab, of ?xs] show ?thesis
    by (simp add: paginatedEmployees_def setSearchTerm_def)
qed

theorem page_beyond_end_is_empty_witness:
  "pageSize (initialState\<lparr>currentPage := 2\<rparr>) = 10
   \<and> length (filteredAndSortedEmployees (\<lambda>a b. 0) sampleEmployees
        (initialState\<lparr>currentPage := 2\<rparr>)) = 5
   \<and> paginatedEmployees (\<lambda>a b. 0) sampleEmployees (initialState\<lparr>currentPage := 2\<rparr>) = []"
proof -
  let ?st = "initialState\<lparr>currentPage := 2\<rparr>"
  have ps: "pageSize ?st = 10" by (simp add: initialState_def)
  have len: "length (filteredAndSortedEmployees (\<lambda>a b. 0) sampleEmployees ?st) = 5"
    by (simp add: unfiltered_length initialState_def sampleEmployees_def)
  have page: "currentPage ?st = 2" by simp
  have positive: "0 < pageSize ?st" by (simp add: ps)
  have beyond: "int (length (filteredAndSortedEmployees (\<lambda>a b. 0) sampleEmployees ?st))
      \<le> (currentPage ?st - 1) * pageSize ?st"
    by (simp only: len ps page) simp
  from page_beyond_end_is_empty [OF positive beyond] ps len show ?thesis by blast
qed


section \<open>Selection\<close>

lemma foldl_insert_ids:
  "foldl (\<lambda>acc employee. insert (id_field employee) acc) A xs = A \<union> id_field ` set xs"
  by (induction xs arbitrary: A) auto

text \<open>
  C9. In selection mode \<^verbatim>\<open>single\<close>, a row-selection event leaves at most one selected id,
  whatever was selected before, and the mode stays \<^verbatim>\<open>single\<close>; selecting row \<open>a\<close> and then
  row \<open>b\<close> leaves exactly \<open>b\<close> selected.
\<close>

theorem single_mode_at_most_one:
  assumes "selectionMode st = Single"
  shows "finite (selectedRows (handleRowSelection r checked st))
     \<and> card (selectedRows (handleRowSelection r checked st)) \<le> 1
     \<and> selectionMode (handleRowSelection r checked st) = Single
     \<and> selectedRows (handleRowSelection b True (handleRowSelection a True st)) = {b}"
  using assms by (simp add: handleRowSelection_def Let_def)

theorem single_mode_at_most_one_witness:
  "selectionMode (initialState\<lparr>selectionMode := Single, selectedRows := {utf16 ''3'', utf16 ''4'', utf16 ''5''}\<rparr>)
     = Single
   \<and> selectedRows (handleRowSelection (utf16 ''2'') True (handleRowSelection (utf16 ''1'') True
        (initialState\<lparr>selectionMode := Single, selectedRows := {utf16 ''3'', utf16 ''4'', utf16 ''5''}\<rparr>)))
       = {utf16 ''2''}
   \<and> card (selectedRows (handleRowSelection (utf16 ''1'') False
        (initialState\<lparr>selectionMode := Single, selectedRows := {utf16 ''3'', utf16 ''4'', utf16 ''5''}\<rparr>))) \<le> 1"
proof -
  let ?st = "initialState\<lparr>selectionMode := Single, selectedRows := {utf16 ''3'', utf16 ''4'', utf16 ''5''}\<rparr>"
  have mode: "selectionMode ?st = Single" by simp
  from single_mode_at_most_one [OF mode, of "utf16 ''1''" False "utf16 ''2''" "utf16 ''1''"] mode
  show ?thesis by simp
qed

text \<open>
  C10. In selection mode \<^verbatim>\<open>none\<close>, a row-selection event and a select-all event leave the
  selection set, and the whole state, exactly as it was, for every prior selection set.
\<close>

theorem none_mode_selection_unchanged:
  assumes "selectionMode st = NoneMode"
  shows "selectedRows (handleRowSelection r checked st) = selectedRows st
     \<and> selectedRows (handleSelectAll lc rows checked st) = selectedRows st
     \<and> handleRowSelection r checked st = st
     \<and> handleSelectAll lc rows checked st = st"
  using assms by (simp add: handleRowSelection_def handleSelectAll_def Let_def)

theorem none_mode_selection_unchanged_witness:
  "selectionMode (initialState\<lparr>selectionMode := NoneMode, selectedRows := {utf16 ''1'', utf16 ''2''}\<rparr>)
     = NoneMode
   \<and> selectedRows (handleRowSelection (utf16 ''3'') True
        (initialState\<lparr>selectionMode := NoneMode, selectedRows := {utf16 ''1'', utf16 ''2''}\<rparr>))
       = {utf16 ''1'', utf16 ''2''}
   \<and> selectedRows (handleSelectAll (\<lambda>a b. 0) sampleEmployees True
        (initialState\<lparr>selectionMode := NoneMode, selectedRows := {utf16 ''1'', utf16 ''2''}\<rparr>))
       = {utf16 ''1'', utf16 ''2''}"
proof -
  let ?st = "initialState\<lparr>selectionMode := NoneMode, selectedRows := {utf16 ''1'', utf16 ''2''}\<rparr>"
  have mode: "selectionMode ?st = NoneMode" by simp
  have before: "selectedRows ?st = {utf16 ''1'', utf16 ''2''}" by simp
  from none_mode_selection_unchanged [OF mode, of "utf16 ''3''" True "\<lambda>a b. 0" sampleEmployees]
    mode before
  show ?thesis by (simp only: simp_thms)
qed

text \<open>
  C1 (as amended). In selection mode \<^verbatim>\<open>multiple\<close>, select-all with \<^verbatim>\<open>checked = true\<close>
  replaces the selection set by the set of the ids of the rows on the current page: every
  row on the current page becomes selected, and no other id stays selected.
\<close>

theorem select_all_replaces_selection:
  assumes "selectionMode st = Multiple"
  shows "selectedRows (handleSelectAll lc rows True st)
           = id_field ` set (paginatedEmployees lc rows st)"
  using assms by (simp add: handleSelectAll_def Let_def foldl_insert_ids)

theorem select_all_replaces_selection_witness:
  "selectionMode pageOneLastRowSelected = Multiple
   \<and> selectedRows (handleSelectAll (\<lambda>a b. 0) elevenRows True pageOneLastRowSelected)
       = utf16 ` {''101'', ''102'', ''103'', ''104'', ''105'', ''106'', ''107'', ''108'', ''109'', ''110''}"
proof -
  have mode: "selectionMode pageOneLastRowSelected = Multiple"
    by (simp add: pageOneLastRowSelected_def initialState_def)
  from select_all_replaces_selection [OF mode, of "\<lambda>a b. 0" elevenRows] mode
  show ?thesis by (simp add: elevenRows_page_one_ids)
qed

text \<open>
  The claim as stated fails: with eleven rows and page size 10, the row of id 111 is not on
  page 1; it is selected before select-all on page 1 and is not selected after it.
\<close>

theorem select_all_drops_off_page_counterexample:
  "selectionMode pageOneLastRowSelected = Multiple
   \<and> utf16 ''111'' \<in> selectedRows pageOneLastRowSelected
   \<and> utf16 ''111'' \<in> id_field ` set (filteredAndSortedEmployees (\<lambda>a b. 0) elevenRows
        pageOneLastRowSelected)
   \<and> utf16 ''111'' \<notin> id_field ` set (paginatedEmployees (\<lambda>a b. 0) elevenRows
        pageOneLastRowSelected)
   \<and> utf16 ''111'' \<notin> selectedRows (handleSelectAll (\<lambda>a b. 0) elevenRows True
        pageOneLastRowSelected)"
proof -
  have mode: "selectionMode pageOneLastRowSelected = Multiple"
    by (simp add: pageOneLastRowSelected_def initialState_def)
  have sel: "selectedRows (handleSelectAll (\<lambda>a b. 0) elevenRows True pageOneLastRowSelected)
      = utf16 ` {''101'', ''102'', ''103'', ''104'', ''105'', ''106'', ''107'', ''108'', ''109'', ''110''}"
    by (simp add: handleSelectAll_def mode Let_def foldl_insert_ids elevenRows_page_one_ids)
  have before: "utf16 ''111'' \<in> selectedRows pageOneLastRowSelected"
    by (simp add: pageOneLastRowSelected_def)
  have inall: "utf16 ''111'' \<in> id_field ` set elevenRows"
    by (simp add: elevenRows_def tableRow_def)
  show ?thesis
    by (simp only: mode before elevenRows_all inall elevenRows_page_one_ids sel)
       (simp add: utf16_eq_iff)
qed

end
